theory Spec2Isabelle
  imports Main "HOL-Library.Char_ord" "HOL-Library.List_Lexorder"
begin

section \<open>Astral AI: provider-client authentication and registries\<close>

text \<open>
  A shallow embedding of the authentication engine of
  \<^verbatim>\<open>astral_ai/providers/_base_client.py\<close>, of the registries of
  \<^verbatim>\<open>astral_ai/providers/_client_registry.py\<close> and
  \<^verbatim>\<open>astral_ai/providers/_mappings.py\<close>, and of
  \<^verbatim>\<open>AstralCompletionRequest.to_provider_dict\<close> of
  \<^verbatim>\<open>astral_ai/_types/_request.py\<close>.

  Python exceptions are values of the type \<open>error\<close>; a function that may raise
  returns \<open>error + 'a\<close> with \<open>Inl\<close> for the exception. Class-level dictionaries
  are fields of an explicit state that every operation takes and returns. An
  exception does not undo what happened before it, so a stateful operation
  returns its result together with the state it leaves behind.
\<close>

subsection \<open>Names, native handles and exceptions\<close>

type_synonym provider_name = string
type_synonym auth_method_name = string

text \<open>
  The native client handle an auth strategy returns is opaque to the core, which
  only tests it for truthiness (\<^verbatim>\<open>if client:\<close>). A handle is an identity
  together with that truth value; Python's \<^verbatim>\<open>None\<close> is a falsy handle.
\<close>

datatype native_client = NativeClient (handle_id: nat) (truthy: bool)

text \<open>
  The exceptions the modelled code raises, each with the keyword arguments of
  its \<^verbatim>\<open>raise\<close> site (the formatted message and the traceback text are
  functions of these and are left out). \<open>OtherException\<close> stands for any other
  exception an auth strategy raises; a strategy may raise any \<open>error\<close>.
\<close>

datatype error =
    AstralUnknownAuthMethodError auth_method_name provider_name "auth_method_name list"
  | MultipleAstralAuthenticationErrors provider_name auth_method_name
      "(auth_method_name \<times> error) list"
  | ProviderNotSupportedError provider_name
  | ValueError string
  | TypeError string
  | AttributeError string
  | OtherException string

subsection \<open>Provider configuration and provider client classes\<close>

text \<open>
  The Python values a configuration holds. The code reads them by duck typing:
  \<^verbatim>\<open>.get\<close> and \<^verbatim>\<open>.items\<close> exist on a dictionary only, the attribute
  \<^verbatim>\<open>auth_method\<close> (line 240 of the base client) and the method
  \<^verbatim>\<open>model_dump\<close> (line 62 of the registry) exist on an \<^verbatim>\<open>AuthMethodConfig\<close>
  object only; every other access raises \<^verbatim>\<open>AttributeError\<close>. The class
  \<^verbatim>\<open>AuthMethodConfig\<close> is declared outside the sources; an object of it is
  its pinned method name and its environment variables, the two entries the
  docstring of \<^verbatim>\<open>load_full_config\<close> shows. A dictionary is the list of its
  items in insertion order.
\<close>

datatype config_value =
    ConfigNone
  | ConfigBool bool
  | ConfigStr string
  | ConfigDict "(string \<times> config_value) list"
  | AuthMethodConfig auth_method_name "(string \<times> string) list"

type_synonym config_dict = "(string \<times> config_value) list"

text \<open>Python truthiness, as \<^verbatim>\<open>if auth_method_config:\<close> and \<^verbatim>\<open>if cache_client\<close> test it.\<close>

fun is_truthy :: "config_value \<Rightarrow> bool" where
  "is_truthy ConfigNone = False"
| "is_truthy (ConfigBool b) = b"
| "is_truthy (ConfigStr text) = (text \<noteq> [])"
| "is_truthy (ConfigDict entries) = (entries \<noteq> [])"
| "is_truthy (AuthMethodConfig name env) = True"

text \<open>
  What \<^verbatim>\<open>yaml.safe_load\<close> yields for \<^verbatim>\<open>astral.yaml\<close>: plain data only, never an
  \<^verbatim>\<open>AuthMethodConfig\<close> object; \<^verbatim>\<open>read_config\<close> returns it as it is and
  no later step converts it. Numbers and lists, which have neither \<^verbatim>\<open>.get\<close> nor
  the attribute \<^verbatim>\<open>auth_method\<close> either, are left out.
\<close>

datatype yaml_value =
    YamlNone
  | YamlBool bool
  | YamlStr string
  | YamlDict "(string \<times> yaml_value) list"

primrec of_yaml :: "yaml_value \<Rightarrow> config_value" where
  "of_yaml YamlNone = ConfigNone"
| "of_yaml (YamlBool b) = ConfigBool b"
| "of_yaml (YamlStr text) = ConfigStr text"
| "of_yaml (YamlDict entries) = ConfigDict (map (map_prod id of_yaml) entries)"

type_synonym env_vars = "(string \<times> string) list"

text \<open>
  An auth strategy is called as \<^verbatim>\<open>strategy(self, self._config, env)\<close> and either
  raises or returns a handle.
\<close>

type_synonym auth_callable = "config_dict \<Rightarrow> env_vars \<Rightarrow> error + native_client"

text \<open>
  A concrete provider client class: its name (the class object is the key of
  \<^verbatim>\<open>_client_cache\<close>), its \<^verbatim>\<open>_model_provider\<close>, its table
  \<^verbatim>\<open>_auth_strategies\<close> as the items of the dictionary in registration order,
  and whether its \<^verbatim>\<open>__init__\<close> takes the keyword \<^verbatim>\<open>async_client\<close>
  (\<^verbatim>\<open>DeepSeekProviderClient.__init__(self, config=None)\<close> does not).
\<close>

record provider_class =
  class_name :: string
  model_provider :: provider_name
  auth_strategies :: "(auth_method_name \<times> auth_callable) list"
  init_accepts_async_client :: bool

subsection \<open>\<^verbatim>\<open>BaseProviderClient._get_or_authenticate_client\<close>\<close>

text \<open>
  What one run of the function leaves: the handle returned or the exception
  raised, the names of the strategies that were called, in call order, and the
  local list \<^verbatim>\<open>errors\<close> as it stands when the function exits.
\<close>

record auth_run =
  outcome :: "error + native_client"
  attempted :: "auth_method_name list"
  errors :: "(auth_method_name \<times> error) list"

text \<open>
  Line 235: \<^verbatim>\<open>self._config.get("auth_method")\<close>, which is \<^verbatim>\<open>None\<close> without
  the entry.
\<close>

definition auth_method_config_of :: "config_dict \<Rightarrow> config_value" where
  "auth_method_config_of cfg =
     (case map_of cfg ''auth_method'' of None \<Rightarrow> ConfigNone | Some entry \<Rightarrow> entry)"

text \<open>
  Lines 239 to 257: the candidate list. For a truthy entry line 240 reads its
  attribute \<^verbatim>\<open>auth_method\<close>, which only an \<^verbatim>\<open>AuthMethodConfig\<close> object has:
  a plain dictionary or string, as a configuration file gives, raises
  \<^verbatim>\<open>AttributeError\<close> there. A pinned name that is not a key of the table raises
  \<^verbatim>\<open>AstralUnknownAuthMethodError\<close>. All of this is before any strategy is called.
\<close>

definition methods_to_try ::
  "provider_class \<Rightarrow> config_dict \<Rightarrow> error + (auth_method_name \<times> auth_callable) list" where
  "methods_to_try cls cfg =
     (let auth_method_config = auth_method_config_of cfg;
          supported_methods = map fst (auth_strategies cls)
      in if is_truthy auth_method_config
         then (case auth_method_config of
                 AuthMethodConfig auth_method_name env \<Rightarrow>
                   (case map_of (auth_strategies cls) auth_method_name of
                      None \<Rightarrow> Inl (AstralUnknownAuthMethodError auth_method_name
                                     (model_provider cls) supported_methods)
                    | Some strategy \<Rightarrow> Inr [(auth_method_name, strategy)])
               | _ \<Rightarrow> Inl (AttributeError ''auth_method''))
         else Inr (auth_strategies cls))"

text \<open>
  Lines 259 to 282: the loop over the candidates and the raise after it.
  \<open>single\<close> is the test \<^verbatim>\<open>len(methods_to_try) == 1\<close>; \<open>called\<close> and \<open>errs\<close>
  are the strategies called so far and the list \<^verbatim>\<open>errors\<close>. A strategy that
  returns a falsy handle is neither a success nor a recorded failure: the loop
  goes on to the next candidate.
\<close>

fun authenticate_loop ::
  "provider_name \<Rightarrow> bool \<Rightarrow> config_dict \<Rightarrow> env_vars \<Rightarrow>
   (auth_method_name \<times> auth_callable) list \<Rightarrow> auth_method_name list \<Rightarrow>
   (auth_method_name \<times> error) list \<Rightarrow> auth_run" where
  "authenticate_loop provider single cfg env [] called errs =
     \<lparr>outcome = Inl (MultipleAstralAuthenticationErrors provider ''multiple_failed'' errs),
      attempted = called, errors = errs\<rparr>"
| "authenticate_loop provider single cfg env ((name, strategy) # rest) called errs =
     (case strategy cfg env of
        Inr client \<Rightarrow>
          if truthy client
          then \<lparr>outcome = Inr client, attempted = called @ [name], errors = errs\<rparr>
          else authenticate_loop provider single cfg env rest (called @ [name]) errs
      | Inl e \<Rightarrow>
          if single
          then \<lparr>outcome = Inl e, attempted = called @ [name], errors = errs @ [(name, e)]\<rparr>
          else authenticate_loop provider single cfg env rest (called @ [name])
                 (errs @ [(name, e)]))"

text \<open>
  Modelled from the spec: the decorator \<^verbatim>\<open>auth_error_handler\<close> of
  \<^verbatim>\<open>astral_ai.errors.error_decorators\<close>, applied to
  \<^verbatim>\<open>_get_or_authenticate_client\<close>, is not among the sources. Sections 4.2 and 7
  of the specification let every failure of the function reach the caller
  as it was raised ("re-raise the original error unchanged", "no wrapping"),
  so the decorator passes the run of the function body through.
\<close>

definition auth_error_handler :: "auth_run \<Rightarrow> auth_run" where
  "auth_error_handler run = run"

definition get_or_authenticate_client ::
  "provider_class \<Rightarrow> config_dict \<Rightarrow> env_vars \<Rightarrow> auth_run" where
  "get_or_authenticate_client cls cfg env =
     auth_error_handler
       (case methods_to_try cls cfg of
          Inl e \<Rightarrow> \<lparr>outcome = Inl e, attempted = [], errors = []\<rparr>
        | Inr candidates \<Rightarrow>
            authenticate_loop (model_provider cls) (length candidates = 1) cfg env
              candidates [] [])"

text \<open>
  Vocabulary for the statements about the loop: a strategy call succeeds when it
  returns a truthy handle, and the recorded failures of a list of candidates are
  the pairs of name and exception of those that raise, in order.
\<close>

definition succeeds :: "error + native_client \<Rightarrow> bool" where
  "succeeds r = (case r of Inl e \<Rightarrow> False | Inr client \<Rightarrow> truthy client)"

fun recorded_failures ::
  "config_dict \<Rightarrow> env_vars \<Rightarrow> (auth_method_name \<times> auth_callable) list \<Rightarrow>
   (auth_method_name \<times> error) list" where
  "recorded_failures cfg env [] = []"
| "recorded_failures cfg env ((name, strategy) # rest) =
     (case strategy cfg env of
        Inl e \<Rightarrow> (name, e) # recorded_failures cfg env rest
      | Inr client \<Rightarrow> recorded_failures cfg env rest)"

subsection \<open>Instances and the state of the process\<close>

text \<open>
  A provider client instance: its identity as a Python object, the name of its
  class and the attribute \<^verbatim>\<open>self.client\<close>. Two references are the same
  instance exactly when the identities agree; every construction takes the next
  unused identity from the state.
\<close>

record provider_client =
  object_id :: nat
  instance_of :: string
  client :: native_client

record adapter =
  adapter_id :: nat
  adapter_class :: string

text \<open>
  The full configuration is a dictionary from a provider to its section.
\<close>

type_synonym full_config = config_dict

text \<open>
  The mutable state of one process: the class-level dictionaries
  \<^verbatim>\<open>BaseProviderClient._client_cache\<close> (keyed by the client class),
  \<^verbatim>\<open>ProviderClientRegistry._client_registry\<close> and
  \<^verbatim>\<open>AdapterRegistry._adapter_cache\<close>; the names of all auth strategies
  called so far; the environment that \<^verbatim>\<open>get_env_vars()\<close> reads and the content
  \<^verbatim>\<open>read_config\<close> finds in \<^verbatim>\<open>astral.yaml\<close> (\<open>None\<close> without a readable
  file), a mapping at the top level as the docstring of
  \<^verbatim>\<open>load_full_config\<close> has it.
\<close>

record process_state =
  next_object_id :: nat
  client_cache :: "string \<rightharpoonup> native_client"
  client_registry :: "string \<rightharpoonup> provider_client"
  adapter_cache :: "provider_name \<rightharpoonup> adapter"
  auth_calls :: "auth_method_name list"
  os_environ :: env_vars
  config_file :: "(string \<times> yaml_value) list option"

subsection \<open>\<^verbatim>\<open>BaseProviderClient.__init__\<close>\<close>

definition load_full_config :: "process_state \<Rightarrow> full_config option" where
  "load_full_config s = map_option (map (map_prod id of_yaml)) (config_file s)"

text \<open>\<^verbatim>\<open>config or self.load_full_config() or {}\<close>: an empty dictionary is falsy.\<close>

definition full_config_of :: "full_config option \<Rightarrow> process_state \<Rightarrow> full_config" where
  "full_config_of config s =
     (let loaded = (case load_full_config s of None \<Rightarrow> [] | Some from_file \<Rightarrow> from_file) in
      case config of
        None \<Rightarrow> loaded
      | Some given \<Rightarrow> if given = [] then loaded else given)"

text \<open>\<^verbatim>\<open>self._full_config.get(self._model_provider, {})\<close>.\<close>

definition get_provider_config :: "provider_class \<Rightarrow> full_config \<Rightarrow> config_value" where
  "get_provider_config cls full =
     (case map_of full (model_provider cls) of
        None \<Rightarrow> ConfigDict []
      | Some provider_section \<Rightarrow> provider_section)"

text \<open>\<^verbatim>\<open>cfg.get("cache_client", True)\<close> as the truth value the constructor tests.\<close>

definition cache_client_of :: "config_dict \<Rightarrow> bool" where
  "cache_client_of cfg =
     (case map_of cfg ''cache_client'' of None \<Rightarrow> True | Some flag \<Rightarrow> is_truthy flag)"

text \<open>
  Lines 161 to 183. The new object takes its identity first. A section that is
  not a dictionary has no \<^verbatim>\<open>.get\<close>, and line 173 raises. With caching on
  and the class in \<^verbatim>\<open>_client_cache\<close> the cached handle is taken and no
  strategy runs; otherwise the client authenticates, and the handle is stored
  under the class only when caching is on. The strategies called are appended
  to \<open>auth_calls\<close> whether authentication returns or raises.
\<close>

definition BaseProviderClient_init ::
  "provider_class \<Rightarrow> full_config option \<Rightarrow> process_state \<Rightarrow>
   (error + provider_client) \<times> process_state" where
  "BaseProviderClient_init cls config s =
     (let self_id = next_object_id s;
          s_new = s\<lparr>next_object_id := Suc (next_object_id s)\<rparr>
      in case get_provider_config cls (full_config_of config s) of
           ConfigDict cfg \<Rightarrow>
             (let caching = cache_client_of cfg;
                  cache_key = class_name cls
              in case (if caching then client_cache s cache_key else None) of
                   Some cached \<Rightarrow>
                     (Inr \<lparr>object_id = self_id, instance_of = cache_key, client = cached\<rparr>,
                      s_new)
                 | None \<Rightarrow>
                     (let run = get_or_authenticate_client cls cfg (os_environ s);
                          s_auth = s_new\<lparr>auth_calls := auth_calls s @ attempted run\<rparr>
                      in case outcome run of
                           Inl e \<Rightarrow> (Inl e, s_auth)
                         | Inr handle \<Rightarrow>
                             (Inr \<lparr>object_id = self_id, instance_of = cache_key,
                                   client = handle\<rparr>,
                              if caching
                              then s_auth\<lparr>client_cache :=
                                            (client_cache s)(cache_key \<mapsto> handle)\<rparr>
                              else s_auth)))
         | _ \<Rightarrow> (Inl (AttributeError ''get''), s_new))"

text \<open>
  Caching is enabled for a construction of the class with the given
  configuration argument when the provider section is a dictionary and
  \<^verbatim>\<open>self._config.get("cache_client", True)\<close> is truthy.
\<close>

definition caching_enabled :: "provider_class \<Rightarrow> full_config option \<Rightarrow> process_state \<Rightarrow> bool" where
  "caching_enabled cls config s =
     (case get_provider_config cls (full_config_of config s) of
        ConfigDict cfg \<Rightarrow> cache_client_of cfg
      | _ \<Rightarrow> False)"

text \<open>
  The call \<^verbatim>\<open>client_class(config, async_client=async_client)\<close> of the registry.
  The constructor of a concrete class is the one of
  \<^verbatim>\<open>DeepSeekProviderClient\<close>, which hands the configuration to the base
  constructor; a constructor without the keyword parameter raises
  \<^verbatim>\<open>TypeError\<close>.
\<close>

definition new_provider_client ::
  "provider_class \<Rightarrow> full_config option \<Rightarrow> bool \<Rightarrow> process_state \<Rightarrow>
   (error + provider_client) \<times> process_state" where
  "new_provider_client cls config async_client s =
     (if init_accepts_async_client cls then BaseProviderClient_init cls config s
      else (Inl (TypeError ''__init__() got an unexpected keyword argument async_client''),
            s\<lparr>next_object_id := Suc (next_object_id s)\<rparr>))"

subsection \<open>\<^verbatim>\<open>ProviderClientRegistry\<close>\<close>

text \<open>
  What the key derivation takes from the Python runtime: the builtin
  \<^verbatim>\<open>hash\<close> on strings (fixed within one process run), and the JSON text
  \<^verbatim>\<open>json.dumps\<close> writes for a key and for \<^verbatim>\<open>v.model_dump()\<close> of an
  \<^verbatim>\<open>AuthMethodConfig\<close> object.
\<close>

record python_runtime =
  py_hash :: "string \<Rightarrow> int"
  json_key :: "string \<Rightarrow> string"
  json_value :: "config_value \<Rightarrow> string"

fun str_join :: "string \<Rightarrow> string list \<Rightarrow> string" where
  "str_join sep [] = []"
| "str_join sep [x] = x"
| "str_join sep (x # y # ys) = x @ sep @ str_join sep (y # ys)"

text \<open>Only an \<^verbatim>\<open>AuthMethodConfig\<close> object has the method \<^verbatim>\<open>model_dump\<close>.\<close>

fun has_model_dump :: "config_value \<Rightarrow> bool" where
  "has_model_dump (AuthMethodConfig name env) = True"
| "has_model_dump other = False"

text \<open>
  \<^verbatim>\<open>json.dumps({k: v.model_dump() for k, v in config.items()}, sort_keys=True)\<close>
  for values that all have \<^verbatim>\<open>model_dump\<close>: the items sorted by key, each
  written as key, colon, value, separated by commas.
\<close>

definition json_dumps_sort_keys :: "python_runtime \<Rightarrow> full_config \<Rightarrow> string" where
  "json_dumps_sort_keys rt config =
     ''{'' @ str_join '', ''
              (map (\<lambda>(k, v). json_key rt k @ '': '' @ json_value rt v) (sort_key fst config))
     @ ''}''"

text \<open>The decimal text of an integer, as an f-string writes it.\<close>

fun str_of_nat :: "nat \<Rightarrow> string" where
  "str_of_nat n =
     (if n < 10 then [''0123456789'' ! n]
      else str_of_nat (n div 10) @ [''0123456789'' ! (n mod 10)])"

declare str_of_nat.simps [simp del]

definition str_of_int :: "int \<Rightarrow> string" where
  "str_of_int i = (if i < 0 then CHR ''-'' # str_of_nat (nat (- i)) else str_of_nat (nat i))"

text \<open>
  Lines 40 to 69. \<^verbatim>\<open>if client_key:\<close> is false for \<^verbatim>\<open>None\<close> and for the empty
  string. When the configuration is serialised (no usable \<^verbatim>\<open>client_key\<close>), a
  value without \<^verbatim>\<open>model_dump\<close> makes line 62 raise \<^verbatim>\<open>AttributeError\<close>.
\<close>

definition generate_registry_key ::
  "python_runtime \<Rightarrow> provider_name \<Rightarrow> full_config option \<Rightarrow> string option \<Rightarrow> bool \<Rightarrow>
   error + string" where
  "generate_registry_key rt provider_name config client_key async_client =
     (let from_config =
            (case config of
               Some c \<Rightarrow>
                 if list_all has_model_dump (map snd c)
                 then (let config_str = json_dumps_sort_keys rt c;
                           config_hash = py_hash rt config_str
                       in Inr (provider_name @ ''_'' @ str_of_int config_hash))
                 else Inl (AttributeError ''model_dump'')
             | None \<Rightarrow> Inr provider_name);
          base_key =
            (case client_key of
               None \<Rightarrow> from_config
             | Some k \<Rightarrow> if k = [] then from_config else Inr k)
      in case base_key of
           Inl e \<Rightarrow> Inl e
         | Inr b \<Rightarrow> Inr (if async_client then b @ ''.async'' else b))"

record astral_client_params =
  new_client :: bool
  client_key :: "string option"
  client_config :: "full_config option"

text \<open>
  Lines 122 to 138 of \<^verbatim>\<open>get_client\<close>: the key of the call, or the
  \<^verbatim>\<open>ValueError\<close> of line 129, or the \<^verbatim>\<open>AttributeError\<close> of the key derivation.
\<close>

definition registry_key_of_call ::
  "python_runtime \<Rightarrow> provider_name \<Rightarrow> astral_client_params option \<Rightarrow> bool \<Rightarrow> error + string" where
  "registry_key_of_call rt provider_name astral_client async_client =
     (case astral_client of
        None \<Rightarrow> generate_registry_key rt provider_name None None async_client
      | Some params \<Rightarrow>
          if new_client params
          then (if (case client_key params of None \<Rightarrow> False | Some k \<Rightarrow> k \<noteq> [])
                then generate_registry_key rt provider_name None (client_key params)
                       async_client
                else Inl (ValueError
                  ''When new_client is True, you must provide a unique client_key.''))
          else generate_registry_key rt provider_name (client_config params)
                 (client_key params) async_client)"

text \<open>
  \<^verbatim>\<open>_PROVIDER_CLIENT_MAP\<close>. Of its three classes only
  \<^verbatim>\<open>DeepSeekProviderClient\<close> is among the sources, so the map is built from
  the classes it is given, and \<open>get_client\<close> takes the map.
\<close>

definition PROVIDER_CLIENT_MAP ::
  "provider_class \<Rightarrow> provider_class \<Rightarrow> provider_class \<Rightarrow> (provider_name \<times> provider_class) list" where
  "PROVIDER_CLIENT_MAP OpenAIProviderClient AnthropicProviderClient DeepSeekProviderClient =
     [(''openai'', OpenAIProviderClient),
      (''anthropic'', AnthropicProviderClient),
      (''deepseek'', DeepSeekProviderClient)]"

text \<open>\<^verbatim>\<open>astral_client.client_config if astral_client else None\<close>.\<close>

definition client_config_of :: "astral_client_params option \<Rightarrow> full_config option" where
  "client_config_of astral_client =
     (case astral_client of None \<Rightarrow> None | Some params \<Rightarrow> client_config params)"

text \<open>Lines 101 to 149.\<close>

definition get_client ::
  "python_runtime \<Rightarrow> (provider_name \<times> provider_class) list \<Rightarrow> provider_name \<Rightarrow>
   astral_client_params option \<Rightarrow> bool \<Rightarrow> process_state \<Rightarrow>
   (error + provider_client) \<times> process_state" where
  "get_client rt client_map provider_name astral_client async_client s =
     (case registry_key_of_call rt provider_name astral_client async_client of
        Inl e \<Rightarrow> (Inl e, s)
      | Inr key \<Rightarrow>
          (case client_registry s key of
             Some cached \<Rightarrow> (Inr cached, s)
           | None \<Rightarrow>
               (case map_of client_map provider_name of
                  None \<Rightarrow> (Inl (ProviderNotSupportedError provider_name), s)
                | Some client_class \<Rightarrow>
                    (case new_provider_client client_class (client_config_of astral_client)
                            async_client s of
                       (Inl e, s') \<Rightarrow> (Inl e, s')
                     | (Inr created, s') \<Rightarrow>
                         (Inr created,
                          s'\<lparr>client_registry := (client_registry s')(key \<mapsto> created)\<rparr>)))))"

text \<open>
  Lines 151 to 202. Registering and unregistering derive the key first and raise
  what the derivation raises, leaving the registry as it is.
\<close>

definition register_client ::
  "python_runtime \<Rightarrow> provider_name \<Rightarrow> provider_client \<Rightarrow> full_config option \<Rightarrow>
   string option \<Rightarrow> bool \<Rightarrow> process_state \<Rightarrow> (error + unit) \<times> process_state" where
  "register_client rt provider_name registered config key_given async_client s =
     (case generate_registry_key rt provider_name config key_given async_client of
        Inl e \<Rightarrow> (Inl e, s)
      | Inr key \<Rightarrow> (Inr (), s\<lparr>client_registry := (client_registry s)(key \<mapsto> registered)\<rparr>))"



subsection \<open>\<^verbatim>\<open>AdapterRegistry\<close>\<close>

text \<open>
  \<^verbatim>\<open>_PROVIDER_ADAPTER_MAP\<close> of \<^verbatim>\<open>_mappings.py\<close>; the adapter classes are
  not among the sources and an adapter is stateless, so a class is its name and
  its construction takes a new identity and does not fail.
\<close>

definition PROVIDER_ADAPTER_MAP :: "(provider_name \<times> string) list" where
  "PROVIDER_ADAPTER_MAP =
     [(''openai'', ''OpenAICompletionAdapter''),
      (''anthropic'', ''AnthropicCompletionAdapter'')]"

text \<open>Lines 57 to 71 of \<^verbatim>\<open>_mappings.py\<close>; the \<^verbatim>\<open>KeyError\<close> of the lookup becomes
  \<^verbatim>\<open>ProviderNotSupportedError\<close>.\<close>

definition get_adapter ::
  "provider_name \<Rightarrow> process_state \<Rightarrow> (error + adapter) \<times> process_state" where
  "get_adapter provider s =
     (case adapter_cache s provider of
        Some cached \<Rightarrow> (Inr cached, s)
      | None \<Rightarrow>
          (case map_of PROVIDER_ADAPTER_MAP provider of
             None \<Rightarrow> (Inl (ProviderNotSupportedError provider), s)
           | Some adapter_cls \<Rightarrow>
               (let created = \<lparr>adapter_id = next_object_id s, adapter_class = adapter_cls\<rparr>
                in (Inr created,
                    s\<lparr>next_object_id := Suc (next_object_id s),
                      adapter_cache := (adapter_cache s)(provider \<mapsto> created)\<rparr>))))"

subsection \<open>\<^verbatim>\<open>AstralCompletionRequest.to_provider_dict\<close>\<close>

text \<open>
  The value of a request attribute: the sentinel \<^verbatim>\<open>NOT_GIVEN\<close>, \<^verbatim>\<open>None\<close>, or
  any other value.
\<close>

datatype 'v py_value = NOT_GIVEN | PyNone | Value 'v

text \<open>
  A request as pydantic keeps it: the value of every attribute (the default
  where the caller gave none) and \<^verbatim>\<open>model_fields_set\<close>, the names of the
  fields the caller passed.
\<close>

record 'v AstralCompletionRequest =
  attributes :: "string \<Rightarrow> 'v py_value"
  model_fields_set :: "string set"

text \<open>
  The declared fields in declaration order: those of \<^verbatim>\<open>BaseRequest\<close>, then
  those of \<^verbatim>\<open>AstralCompletionRequest\<close>.
\<close>

definition model_fields :: "string list" where
  "model_fields =
     [''model'', ''astral_params'', ''messages'', ''stream'', ''frequency_penalty'',
      ''logit_bias'', ''logprobs'', ''max_completion_tokens'', ''max_tokens'', ''metadata'',
      ''modalities'', ''n'', ''parallel_tool_calls'', ''prediction'', ''presence_penalty'',
      ''reasoning_effort'', ''response_format'', ''seed'', ''service_tier'', ''stop'',
      ''store'', ''stream_options'', ''temperature'', ''tool_choice'', ''tools'',
      ''top_logprobs'', ''top_p'', ''user'', ''timeout'']"

text \<open>
  \<^verbatim>\<open>self.model_dump(exclude_unset=True)\<close> of pydantic: the fields of
  \<^verbatim>\<open>model_fields_set\<close> with their values, in declaration order. A value stands
  for itself; the conversion of a nested model to a dictionary of the same
  content is not distinguished from the value.
\<close>

definition model_dump_exclude_unset ::
  "'v AstralCompletionRequest \<Rightarrow> (string \<times> 'v py_value) list" where
  "model_dump_exclude_unset r =
     map (\<lambda>key. (key, attributes r key)) (filter (\<lambda>key. key \<in> model_fields_set r) model_fields)"

text \<open>Lines 339 to 346; the returned dictionary is the list of its items.\<close>

definition to_provider_dict ::
  "'v AstralCompletionRequest \<Rightarrow> (string \<times> 'v py_value) list" where
  "to_provider_dict r =
     (let raw = model_dump_exclude_unset r
      in filter (\<lambda>(key, v). v \<noteq> NOT_GIVEN) raw)"

subsection \<open>Example classes for the concrete evaluations\<close>

definition strategy_raises :: "string \<Rightarrow> auth_callable" where
  "strategy_raises msg cfg env = Inl (OtherException msg)"

definition strategy_returns :: "native_client \<Rightarrow> auth_callable" where
  "strategy_returns handle cfg env = Inr handle"

definition no_config :: config_dict where
  "no_config = []"

definition pinned_config :: "auth_method_name \<Rightarrow> config_dict" where
  "pinned_config name = [(''auth_method'', AuthMethodConfig name [])]"

text \<open>
  The content of \<^verbatim>\<open>astral.yaml\<close> in the format of the docstring of
  \<^verbatim>\<open>load_full_config\<close>, pinning the given method for the given provider.
\<close>

definition yaml_pinning ::
  "provider_name \<Rightarrow> auth_method_name \<Rightarrow> (string \<times> yaml_value) list" where
  "yaml_pinning provider name =
     [(provider,
       YamlDict [(''auth_method'',
                  YamlDict [(''auth_method'', YamlStr name),
                            (''environment_variables'',
                             YamlDict [(''API_KEY'', YamlStr ''your_key'')])]),
                 (''cache_client'', YamlBool True),
                 (''api_base'', YamlStr ''https://api.example.com'')])]"

definition example_runtime :: python_runtime where
  "example_runtime =
     \<lparr>py_hash = (\<lambda>text. int (length text)),
      json_key = (\<lambda>k. [CHR 0x22] @ k @ [CHR 0x22]),
      json_value = (\<lambda>v. ''{}'')\<rparr>"

definition initial_state :: process_state where
  "initial_state =
     \<lparr>next_object_id = 0, client_cache = Map.empty, client_registry = Map.empty,
      adapter_cache = Map.empty, auth_calls = [], os_environ = [], config_file = None\<rparr>"

definition example_class ::
  "(auth_method_name \<times> auth_callable) list \<Rightarrow> provider_class" where
  "example_class table =
     \<lparr>class_name = ''OpenAIProviderClient'', model_provider = ''openai'',
      auth_strategies = table, init_accepts_async_client = True\<rparr>"

definition example_openai :: provider_class where
  "example_openai = example_class [(''api_key'', strategy_returns (NativeClient 1 True))]"

text \<open>
  A class with the constructor signature of \<^verbatim>\<open>DeepSeekProviderClient\<close>, which
  takes no \<^verbatim>\<open>async_client\<close>.
\<close>

definition example_deepseek :: provider_class where
  "example_deepseek =
     \<lparr>class_name = ''DeepSeekProviderClient'', model_provider = ''deepseek'',
      auth_strategies = [(''api_key_with_base_url'', strategy_returns (NativeClient 2 True))],
      init_accepts_async_client = False\<rparr>"

definition example_map :: "(provider_name \<times> provider_class) list" where
  "example_map =
     PROVIDER_CLIENT_MAP example_openai
       (example_openai\<lparr>class_name := ''AnthropicProviderClient'',
          model_provider := ''anthropic''\<rparr>)
       example_deepseek"

text \<open>
  A call with an explicit key and a configuration that sets \<^verbatim>\<open>cache_client\<close> to
  false for the given provider.
\<close>

definition no_cache_params :: "provider_name \<Rightarrow> astral_client_params" where
  "no_cache_params provider =
     \<lparr>new_client = False, client_key = Some ''mine'',
      client_config = Some [(provider, ConfigDict [(''cache_client'', ConfigBool False)])]\<rparr>"

definition example_instance :: "nat \<Rightarrow> provider_client" where
  "example_instance n =
     \<lparr>object_id = n, instance_of = ''OpenAIProviderClient'', client = NativeClient 1 True\<rparr>"


definition example_request :: "string AstralCompletionRequest" where
  "example_request =
     \<lparr>attributes = (\<lambda>key. if key = ''model'' then Value ''gpt-4o''
                          else if key = ''messages'' then Value ''hello''
                          else if key = ''temperature'' then PyNone
                          else NOT_GIVEN),
      model_fields_set = {''model'', ''messages'', ''temperature'', ''seed''}\<rparr>"

definition state_after_first_init :: process_state where
  "state_after_first_init =
     initial_state\<lparr>next_object_id := 1, auth_calls := [''api_key''],
        client_cache := [''OpenAIProviderClient'' \<mapsto> NativeClient 1 True]\<rparr>"

section \<open>Properties of the authentication engine\<close>

text \<open>
  C1. When the candidate list has exactly one entry (a pinned strategy, or the
  only strategy of the table) and that strategy raises \<open>E\<close>, the function raises
  \<open>E\<close> itself: the outcome is \<open>E\<close>, not an aggregate and not another exception;
  the one strategy was called once.
\<close>

theorem single_candidate_reraises_original:
  assumes "methods_to_try cls cfg = Inr [(name, strategy)]"
    and "strategy cfg env = Inl E"
  shows "get_or_authenticate_client cls cfg env =
         \<lparr>outcome = Inl E, attempted = [name], errors = [(name, E)]\<rparr>"
  using assms
  by (simp add: get_or_authenticate_client_def auth_error_handler_def)

theorem single_candidate_reraises_original_witness:
  "methods_to_try
     (example_class [(''api_key'', strategy_returns (NativeClient 1 True)),
                     (''X'', strategy_raises ''E'')])
     (pinned_config ''X'') = Inr [(''X'', strategy_raises ''E'')]
   \<and> strategy_raises ''E'' (pinned_config ''X'') [] = Inl (OtherException ''E'')
   \<and> get_or_authenticate_client
       (example_class [(''api_key'', strategy_returns (NativeClient 1 True)),
                       (''X'', strategy_raises ''E'')])
       (pinned_config ''X'') [] =
     \<lparr>outcome = Inl (OtherException ''E''), attempted = [''X''],
      errors = [(''X'', OtherException ''E'')]\<rparr>"
proof -
  have m: "methods_to_try
     (example_class [(''api_key'', strategy_returns (NativeClient 1 True)),
                     (''X'', strategy_raises ''E'')])
     (pinned_config ''X'') = Inr [(''X'', strategy_raises ''E'')]"
    by (simp add: methods_to_try_def auth_method_config_of_def example_class_def
        pinned_config_def)
  have r: "strategy_raises ''E'' (pinned_config ''X'') [] = Inl (OtherException ''E'')"
    by (simp add: strategy_raises_def)
  show ?thesis
    using m r single_candidate_reraises_original [OF m r] by simp
qed


subsection \<open>The loop over several candidates\<close>

lemma authenticate_loop_first_success:
  assumes "\<forall>(m, g) \<in> set pre. \<not> succeeds (g cfg env)"
    and "single \<longrightarrow> pre = []"
    and "strategy cfg env = Inr handle" and "truthy handle"
  shows "authenticate_loop provider single cfg env (pre @ (name, strategy) # post) called errs =
         \<lparr>outcome = Inr handle, attempted = called @ map fst pre @ [name],
          errors = errs @ recorded_failures cfg env pre\<rparr>"
  using assms
proof (induction pre arbitrary: called errs)
  case Nil
  then show ?case by simp
next
  case (Cons a pre)
  obtain m g where a: "a = (m, g)" by (cases a)
  from Cons.prems(2) have ns: "\<not> single" by auto
  from Cons.prems(1) a have ng: "\<not> succeeds (g cfg env)" by simp
  have ih: "\<And>called errs.
      authenticate_loop provider single cfg env (pre @ (name, strategy) # post) called errs =
      \<lparr>outcome = Inr handle, attempted = called @ map fst pre @ [name],
       errors = errs @ recorded_failures cfg env pre\<rparr>"
    using Cons.IH Cons.prems ns by simp
  show ?case
    using ng ns ih by (cases "g cfg env") (simp_all add: a succeeds_def)
qed

lemma authenticate_loop_all_raise:
  assumes "\<forall>(m, g) \<in> set ms. \<exists>e. g cfg env = Inl e"
  shows "authenticate_loop provider False cfg env ms called errs =
         \<lparr>outcome = Inl (MultipleAstralAuthenticationErrors provider ''multiple_failed''
                          (errs @ recorded_failures cfg env ms)),
          attempted = called @ map fst ms, errors = errs @ recorded_failures cfg env ms\<rparr>"
  using assms
proof (induction ms arbitrary: called errs)
  case Nil
  then show ?case by simp
next
  case (Cons a ms)
  obtain m g where a: "a = (m, g)" by (cases a)
  from Cons.prems a obtain e where e: "g cfg env = Inl e" by auto
  from Cons.prems have "\<forall>(m, g) \<in> set ms. \<exists>e. g cfg env = Inl e" by simp
  from Cons.IH [OF this] show ?case by (simp add: a e)
qed

text \<open>
  With two or more unpinned strategies that all raise, the aggregate carries the
  pairs of name and exception of all of them, in the order of the table.
\<close>

lemma all_candidates_raise_aggregated:
  assumes "\<not> is_truthy (auth_method_config_of cfg)"
    and "length (auth_strategies cls) \<noteq> 1"
    and "\<forall>(m, g) \<in> set (auth_strategies cls). \<exists>e. g cfg env = Inl e"
  shows "get_or_authenticate_client cls cfg env =
         \<lparr>outcome = Inl (MultipleAstralAuthenticationErrors (model_provider cls)
                          ''multiple_failed'' (recorded_failures cfg env (auth_strategies cls))),
          attempted = map fst (auth_strategies cls),
          errors = recorded_failures cfg env (auth_strategies cls)\<rparr>"
  using assms(1,2) authenticate_loop_all_raise [OF assms(3), of "model_provider cls" "[]" "[]"]
  by (simp add: get_or_authenticate_client_def auth_error_handler_def methods_to_try_def)

text \<open>
  C2, evaluated at the inputs where the code leaves the claim. A table whose one
  strategy returns a falsy handle (\<^verbatim>\<open>None\<close>) without raising: one strategy
  is attempted, nothing is recorded, the loop ends and the aggregate
  \<^verbatim>\<open>MultipleAstralAuthenticationErrors\<close> is raised with an empty list. An empty
  table: no strategy is attempted and the same aggregate is raised.
\<close>

theorem aggregate_raised_with_fewer_than_two_attempts:
  "get_or_authenticate_client
     (example_class [(''api_key'', strategy_returns (NativeClient 0 False))]) no_config [] =
   \<lparr>outcome = Inl (MultipleAstralAuthenticationErrors ''openai'' ''multiple_failed'' []),
    attempted = [''api_key''], errors = []\<rparr>
   \<and> get_or_authenticate_client (example_class []) no_config [] =
   \<lparr>outcome = Inl (MultipleAstralAuthenticationErrors ''openai'' ''multiple_failed'' []),
    attempted = [], errors = []\<rparr>"
  by (simp add: get_or_authenticate_client_def auth_error_handler_def methods_to_try_def
      auth_method_config_of_def example_class_def no_config_def strategy_returns_def)

text \<open>
  C6. With no pinned method (the entry \<^verbatim>\<open>auth_method\<close> of the configuration is
  absent or falsy), the strategies are called in the order of the table
  up to the first one that returns a truthy handle; that handle is the result,
  no later strategy is called (\<open>attempted\<close> ends with the successful one), and
  the exceptions of the earlier strategies are in \<open>errors\<close> and not raised.
\<close>

theorem first_success_short_circuits:
  assumes "\<not> is_truthy (auth_method_config_of cfg)"
    and "auth_strategies cls = pre @ (name, strategy) # post"
    and "\<forall>(m, g) \<in> set pre. \<not> succeeds (g cfg env)"
    and "strategy cfg env = Inr handle" and "truthy handle"
  shows "get_or_authenticate_client cls cfg env =
         \<lparr>outcome = Inr handle, attempted = map fst pre @ [name],
          errors = recorded_failures cfg env pre\<rparr>"
proof -
  have m: "methods_to_try cls cfg = Inr (pre @ (name, strategy) # post)"
    using assms(1,2) by (simp add: methods_to_try_def)
  have s: "length (pre @ (name, strategy) # post) = 1 \<longrightarrow> pre = []"
    by simp
  show ?thesis
    using authenticate_loop_first_success
            [where cfg = cfg and env = env and strategy = strategy and pre = pre
               and single = "length (pre @ (name, strategy) # post) = 1"
               and provider = "model_provider cls" and post = post and called = "[]"
               and errs = "[]" and name = name, OF assms(3) s assms(4,5)]
    by (simp add: get_or_authenticate_client_def auth_error_handler_def m)
qed

theorem first_success_short_circuits_witness:
  "get_or_authenticate_client
     (example_class [(''s1'', strategy_raises ''E1''),
                     (''s2'', strategy_returns (NativeClient 7 True)),
                     (''s3'', strategy_raises ''E3'')])
     no_config [] =
   \<lparr>outcome = Inr (NativeClient 7 True), attempted = [''s1'', ''s2''],
    errors = [(''s1'', OtherException ''E1'')]\<rparr>"
  using first_success_short_circuits
          [where cls = "example_class [(''s1'', strategy_raises ''E1''),
                     (''s2'', strategy_returns (NativeClient 7 True)),
                     (''s3'', strategy_raises ''E3'')]"
             and cfg = no_config and env = "[]"
             and pre = "[(''s1'', strategy_raises ''E1'')]" and name = "''s2''"
             and strategy = "strategy_returns (NativeClient 7 True)"
             and post = "[(''s3'', strategy_raises ''E3'')]"
             and handle = "NativeClient 7 True"]
  by (simp add: example_class_def no_config_def strategy_raises_def strategy_returns_def
      succeeds_def auth_method_config_of_def)

text \<open>
  A method pinned by an \<^verbatim>\<open>AuthMethodConfig\<close> object whose name is not a key of the
  strategy table makes the function raise \<^verbatim>\<open>AstralUnknownAuthMethodError\<close> with
  the offending name, the provider and the list of the supported names; no
  strategy has been called.
\<close>

lemma unknown_pinned_object_fails_first:
  assumes "auth_method_config_of cfg = AuthMethodConfig name vars"
    and "name \<notin> fst ` set (auth_strategies cls)"
  shows "get_or_authenticate_client cls cfg env =
         \<lparr>outcome = Inl (AstralUnknownAuthMethodError name (model_provider cls)
                          (map fst (auth_strategies cls))),
          attempted = [], errors = []\<rparr>"
proof -
  from assms(2) have "map_of (auth_strategies cls) name = None"
    by (simp add: map_of_eq_None_iff)
  with assms(1) show ?thesis
    by (simp add: get_or_authenticate_client_def auth_error_handler_def methods_to_try_def)
qed

text \<open>
  No value read from \<^verbatim>\<open>astral.yaml\<close> is an \<^verbatim>\<open>AuthMethodConfig\<close> object, so a
  truthy entry \<^verbatim>\<open>auth_method\<close> that comes from the file raises
  \<^verbatim>\<open>AttributeError\<close> at line 240, whatever the strategy table holds.
\<close>

lemma of_yaml_no_attribute:
  "of_yaml y \<noteq> AuthMethodConfig name vars"
  by (cases y) simp_all

lemma file_entry_raises_attribute_error:
  assumes "auth_method_config_of cfg = of_yaml y" and "is_truthy (of_yaml y)"
  shows "get_or_authenticate_client cls cfg env =
         \<lparr>outcome = Inl (AttributeError ''auth_method''), attempted = [], errors = []\<rparr>"
  using assms
  by (cases y)
     (simp_all add: get_or_authenticate_client_def auth_error_handler_def methods_to_try_def)

text \<open>
  C7, evaluated where the code leaves the claim. The file \<^verbatim>\<open>astral.yaml\<close>, in
  the format of the docstring of \<^verbatim>\<open>load_full_config\<close>, pins the method
  \<^verbatim>\<open>oauth\<close> for \<^verbatim>\<open>deepseek\<close>, whose client class has the single strategy
  \<^verbatim>\<open>api_key_with_base_url\<close>, and the class is constructed without a
  configuration argument. The entry is a plain dictionary, line 240 raises
  \<^verbatim>\<open>AttributeError\<close>, and the constructor raises it: not the unknown-method
  error, and neither the offending name nor the supported names are reported.
\<close>

theorem file_pinned_unknown_method_raises_attribute_error:
  "BaseProviderClient_init example_deepseek None
     (initial_state\<lparr>config_file := Some (yaml_pinning ''deepseek'' ''oauth'')\<rparr>) =
   (Inl (AttributeError ''auth_method''),
    initial_state\<lparr>config_file := Some (yaml_pinning ''deepseek'' ''oauth''),
      next_object_id := 1\<rparr>)
   \<and> ''oauth'' \<notin> fst ` set (auth_strategies example_deepseek)"
  by (simp add: BaseProviderClient_init_def Let_def get_provider_config_def full_config_of_def
      load_full_config_def get_or_authenticate_client_def auth_error_handler_def
      methods_to_try_def auth_method_config_of_def cache_client_of_def yaml_pinning_def
      example_deepseek_def initial_state_def)

section \<open>Properties of the constructor and of the client registry\<close>

lemma init_from_class_cache:
  assumes "caching_enabled cls config s" and "client_cache s (class_name cls) = Some cached"
  shows "BaseProviderClient_init cls config s =
         (Inr \<lparr>object_id = next_object_id s, instance_of = class_name cls, client = cached\<rparr>,
          s\<lparr>next_object_id := Suc (next_object_id s)\<rparr>)"
  using assms
  by (simp add: BaseProviderClient_init_def caching_enabled_def Let_def
      split: config_value.splits)

lemma init_success_facts:
  assumes "BaseProviderClient_init cls config s = (Inr created, s')"
  shows "object_id created = next_object_id s"
    and "instance_of created = class_name cls"
    and "next_object_id s' = Suc (next_object_id s)"
    and "client_registry s' = client_registry s"
    and "config_file s' = config_file s"
    and "caching_enabled cls config s \<Longrightarrow> client_cache s' (class_name cls) = Some (client created)"
  using assms
  by (auto simp: BaseProviderClient_init_def caching_enabled_def Let_def
      split: option.splits sum.splits if_splits config_value.splits)


lemma get_client_hit:
  assumes "registry_key_of_call rt p ac a = Inr k" and "client_registry s k = Some cached"
  shows "get_client rt cm p ac a s = (Inr cached, s)"
  using assms by (simp add: get_client_def)

lemma get_client_miss:
  assumes "registry_key_of_call rt p ac a = Inr k" and "client_registry s k = None"
    and "map_of cm p = Some cls"
  shows "get_client rt cm p ac a s =
         (case new_provider_client cls (client_config_of ac) a s of
            (Inl e, s') \<Rightarrow> (Inl e, s')
          | (Inr created, s') \<Rightarrow>
              (Inr created, s'\<lparr>client_registry := (client_registry s')(k \<mapsto> created)\<rparr>))"
  using assms by (simp add: get_client_def)








text \<open>
  C10. The class-level cache is keyed by the class alone. When a construction
  with caching enabled has returned the instance \<open>first\<close>, the cache holds the
  handle of \<open>first\<close> under the class, and a second construction of the same class
  with caching enabled, whatever else its configuration says, takes that handle:
  the state changes in the object counter only, so no auth strategy is called.
\<close>

theorem class_cache_keyed_by_class_only:
  assumes "BaseProviderClient_init cls config1 s0 = (Inr first, s1)"
    and "caching_enabled cls config1 s0"
    and "caching_enabled cls config2 s1"
  shows "client_cache s1 (class_name cls) = Some (client first) \<and>
         BaseProviderClient_init cls config2 s1 =
         (Inr \<lparr>object_id = next_object_id s1, instance_of = class_name cls,
               client = client first\<rparr>,
          s1\<lparr>next_object_id := Suc (next_object_id s1)\<rparr>)"
  using init_success_facts(6) [OF assms(1,2)] init_from_class_cache [OF assms(3)]
  by simp

theorem class_cache_keyed_by_class_only_witness:
  "BaseProviderClient_init example_openai None initial_state =
     (Inr (example_instance 0), state_after_first_init)
   \<and> caching_enabled example_openai None initial_state
   \<and> caching_enabled example_openai (Some [(''openai'', ConfigDict (pinned_config ''oauth''))])
        state_after_first_init
   \<and> BaseProviderClient_init example_openai (Some [(''openai'', ConfigDict (pinned_config ''oauth''))])
        state_after_first_init =
     (Inr (example_instance 1), state_after_first_init\<lparr>next_object_id := 2\<rparr>)
   \<and> auth_calls (state_after_first_init\<lparr>next_object_id := 2\<rparr>) =
     auth_calls state_after_first_init"
proof -
  have first: "BaseProviderClient_init example_openai None initial_state =
     (Inr (example_instance 0), state_after_first_init)"
    by (simp add: BaseProviderClient_init_def Let_def get_provider_config_def cache_client_of_def full_config_of_def
        load_full_config_def get_or_authenticate_client_def auth_error_handler_def
        methods_to_try_def auth_method_config_of_def strategy_returns_def example_openai_def example_class_def
        example_instance_def initial_state_def
        state_after_first_init_def)
  have c1: "caching_enabled example_openai None initial_state"
    by (simp add: caching_enabled_def get_provider_config_def cache_client_of_def full_config_of_def load_full_config_def
        client_config_of_def example_openai_def example_class_def initial_state_def)
  have c2: "caching_enabled example_openai (Some [(''openai'', ConfigDict (pinned_config ''oauth''))])
        state_after_first_init"
    by (simp add: caching_enabled_def get_provider_config_def cache_client_of_def full_config_of_def load_full_config_def
        client_config_of_def example_openai_def example_class_def initial_state_def
        pinned_config_def state_after_first_init_def)
  from class_cache_keyed_by_class_only [OF first c1 c2] first c1 c2
  show ?thesis
    by (simp add: example_instance_def example_openai_def example_class_def
        state_after_first_init_def)
qed

text \<open>
  C8. For a provider that is not a key of the client map, a \<open>get_client\<close> call whose
  key is not registered raises \<^verbatim>\<open>ProviderNotSupportedError\<close> with the provider
  name; for a provider that is not a key of the adapter map and has no cached
  adapter, \<open>get_adapter\<close> does the same. Neither call changes the state.
\<close>

theorem unsupported_provider_rejected:
  "(registry_key_of_call rt p ac a = Inr k \<and> client_registry s k = None \<and>
    p \<notin> fst ` set cm \<longrightarrow>
      get_client rt cm p ac a s = (Inl (ProviderNotSupportedError p), s)) \<and>
   (adapter_cache s p = None \<and> p \<notin> fst ` set PROVIDER_ADAPTER_MAP \<longrightarrow>
      get_adapter p s = (Inl (ProviderNotSupportedError p), s))"
proof (intro conjI impI)
  assume h: "registry_key_of_call rt p ac a = Inr k \<and> client_registry s k = None \<and>
    p \<notin> fst ` set cm"
  then have "map_of cm p = None" by (simp add: map_of_eq_None_iff)
  with h show "get_client rt cm p ac a s = (Inl (ProviderNotSupportedError p), s)"
    by (simp add: get_client_def)
next
  assume h: "adapter_cache s p = None \<and> p \<notin> fst ` set PROVIDER_ADAPTER_MAP"
  then have "map_of PROVIDER_ADAPTER_MAP p = None" by (simp add: map_of_eq_None_iff)
  with h show "get_adapter p s = (Inl (ProviderNotSupportedError p), s)"
    by (simp add: get_adapter_def)
qed

theorem unsupported_provider_rejected_witness:
  "get_client example_runtime example_map ''unknown'' None False initial_state =
     (Inl (ProviderNotSupportedError ''unknown''), initial_state)
   \<and> get_adapter ''unknown'' initial_state =
     (Inl (ProviderNotSupportedError ''unknown''), initial_state)"
proof -
  have key: "registry_key_of_call example_runtime ''unknown'' None False = Inr ''unknown''"
    by (simp add: registry_key_of_call_def generate_registry_key_def)
  have absent: "client_registry initial_state ''unknown'' = None"
    "adapter_cache initial_state ''unknown'' = None"
    by (simp_all add: initial_state_def)
  have out: "''unknown'' \<notin> fst ` set example_map"
    "''unknown'' \<notin> fst ` set PROVIDER_ADAPTER_MAP"
    by (simp_all add: example_map_def PROVIDER_CLIENT_MAP_def PROVIDER_ADAPTER_MAP_def)
  from unsupported_provider_rejected [of example_runtime "''unknown''" None False "''unknown''"
      initial_state example_map] key absent out
  show ?thesis by simp
qed

text \<open>
  C4, as the code has it. The flag \<^verbatim>\<open>cache_client\<close> is read by the constructor
  only; the registry never looks at it. For a provider with a client class
  whose configuration sets the flag to a falsy value, a \<open>get_client\<close> call that
  derives no key raises what the derivation raises and changes nothing. A call
  that derives a key looks it up as always: a registered instance is returned
  as it is. On a miss the class is constructed: a constructor that does not
  take \<^verbatim>\<open>async_client\<close> raises \<^verbatim>\<open>TypeError\<close>; otherwise the client
  authenticates afresh (the class-level cache is neither read nor written) and,
  when that returns a handle, the new instance is stored in the registry under
  the key.
\<close>

theorem cache_flag_off_still_registered:
  assumes "map_of cm p = Some cls"
    and "get_provider_config cls (full_config_of (client_config_of ac) s) = ConfigDict cfg"
    and "map_of cfg ''cache_client'' = Some flag" and "\<not> is_truthy flag"
  shows "(registry_key_of_call rt p ac a = Inl e \<longrightarrow> get_client rt cm p ac a s = (Inl e, s)) \<and>
         (registry_key_of_call rt p ac a = Inr k \<and> client_registry s k = Some cached \<longrightarrow>
            get_client rt cm p ac a s = (Inr cached, s)) \<and>
         (registry_key_of_call rt p ac a = Inr k \<and> client_registry s k = None \<and>
          \<not> init_accepts_async_client cls \<longrightarrow>
            get_client rt cm p ac a s =
            (Inl (TypeError ''__init__() got an unexpected keyword argument async_client''),
             s\<lparr>next_object_id := Suc (next_object_id s)\<rparr>)) \<and>
         (registry_key_of_call rt p ac a = Inr k \<and> client_registry s k = None \<and>
          init_accepts_async_client cls \<longrightarrow>
            get_client rt cm p ac a s =
            (let run = get_or_authenticate_client cls cfg (os_environ s);
                 s_auth = s\<lparr>next_object_id := Suc (next_object_id s),
                            auth_calls := auth_calls s @ attempted run\<rparr>
             in case outcome run of
                  Inl e \<Rightarrow> (Inl e, s_auth)
                | Inr handle \<Rightarrow>
                    (Inr \<lparr>object_id = next_object_id s, instance_of = class_name cls,
                          client = handle\<rparr>,
                     s_auth\<lparr>client_registry := (client_registry s)
                        (k \<mapsto> \<lparr>object_id = next_object_id s, instance_of = class_name cls,
                               client = handle\<rparr>)\<rparr>)))"
proof (intro conjI impI)
  assume "registry_key_of_call rt p ac a = Inl e"
  then show "get_client rt cm p ac a s = (Inl e, s)"
    by (simp add: get_client_def)
next
  assume "registry_key_of_call rt p ac a = Inr k \<and> client_registry s k = Some cached"
  then show "get_client rt cm p ac a s = (Inr cached, s)"
    by (simp add: get_client_hit)
next
  assume h: "registry_key_of_call rt p ac a = Inr k \<and> client_registry s k = None \<and>
          \<not> init_accepts_async_client cls"
  then have key: "registry_key_of_call rt p ac a = Inr k"
    and miss: "client_registry s k = None" by simp_all
  show "get_client rt cm p ac a s =
            (Inl (TypeError ''__init__() got an unexpected keyword argument async_client''),
             s\<lparr>next_object_id := Suc (next_object_id s)\<rparr>)"
    unfolding get_client_miss [OF key miss assms(1)]
    using h by (simp add: new_provider_client_def)
next
  assume h: "registry_key_of_call rt p ac a = Inr k \<and> client_registry s k = None \<and>
          init_accepts_async_client cls"
  then have key: "registry_key_of_call rt p ac a = Inr k"
    and miss: "client_registry s k = None" by simp_all
  have off: "\<not> cache_client_of cfg"
    using assms(3,4) by (simp add: cache_client_of_def)
  show "get_client rt cm p ac a s =
            (let run = get_or_authenticate_client cls cfg (os_environ s);
                 s_auth = s\<lparr>next_object_id := Suc (next_object_id s),
                            auth_calls := auth_calls s @ attempted run\<rparr>
             in case outcome run of
                  Inl e \<Rightarrow> (Inl e, s_auth)
                | Inr handle \<Rightarrow>
                    (Inr \<lparr>object_id = next_object_id s, instance_of = class_name cls,
                          client = handle\<rparr>,
                     s_auth\<lparr>client_registry := (client_registry s)
                        (k \<mapsto> \<lparr>object_id = next_object_id s, instance_of = class_name cls,
                               client = handle\<rparr>)\<rparr>))"
    unfolding get_client_miss [OF key miss assms(1)]
    using h off assms(2)
    by (simp add: new_provider_client_def BaseProviderClient_init_def Let_def
        split: sum.splits)
qed

theorem cache_flag_off_still_registered_witness:
  "get_client example_runtime example_map ''openai'' (Some (no_cache_params ''openai'')) False
       initial_state =
     (Inr (example_instance 0),
      initial_state\<lparr>next_object_id := 1, auth_calls := [''api_key''],
        client_registry := [''mine'' \<mapsto> example_instance 0]\<rparr>)
   \<and> get_client example_runtime example_map ''deepseek'' (Some (no_cache_params ''deepseek''))
       False initial_state =
     (Inl (TypeError ''__init__() got an unexpected keyword argument async_client''),
      initial_state\<lparr>next_object_id := 1\<rparr>)"
proof -
  have key: "\<And>p. registry_key_of_call example_runtime p (Some (no_cache_params p)) False =
             Inr ''mine''"
    by (simp add: registry_key_of_call_def generate_registry_key_def no_cache_params_def)
  have miss: "client_registry initial_state ''mine'' = None"
    by (simp add: initial_state_def)
  have cls: "map_of example_map ''openai'' = Some example_openai"
    by (simp add: example_map_def PROVIDER_CLIENT_MAP_def)
  have acc: "init_accepts_async_client example_openai"
    by (simp add: example_openai_def example_class_def)
  have flag: "get_provider_config example_openai
      (full_config_of (client_config_of (Some (no_cache_params ''openai''))) initial_state) =
      ConfigDict [(''cache_client'', ConfigBool False)]"
    by (simp add: get_provider_config_def full_config_of_def load_full_config_def
        client_config_of_def example_openai_def example_class_def initial_state_def
        no_cache_params_def)
  have entry: "map_of [(''cache_client'', ConfigBool False)] ''cache_client'' =
      Some (ConfigBool False)" "\<not> is_truthy (ConfigBool False)"
    by simp_all
  from cache_flag_off_still_registered [OF cls flag entry, of example_runtime False
      "ValueError []" "''mine''" "example_instance 0"] key miss acc
  have first: "get_client example_runtime example_map ''openai''
       (Some (no_cache_params ''openai'')) False initial_state =
     (let run = get_or_authenticate_client example_openai
                  [(''cache_client'', ConfigBool False)] (os_environ initial_state);
          s_auth = initial_state\<lparr>next_object_id := Suc (next_object_id initial_state),
                     auth_calls := auth_calls initial_state @ attempted run\<rparr>
      in case outcome run of
           Inl e \<Rightarrow> (Inl e, s_auth)
         | Inr handle \<Rightarrow>
             (Inr \<lparr>object_id = next_object_id initial_state,
                   instance_of = class_name example_openai, client = handle\<rparr>,
              s_auth\<lparr>client_registry := (client_registry initial_state)
                 (''mine'' \<mapsto> \<lparr>object_id = next_object_id initial_state,
                        instance_of = class_name example_openai, client = handle\<rparr>)\<rparr>))"
    by simp
  have cls2: "map_of example_map ''deepseek'' = Some example_deepseek"
    by (simp add: example_map_def PROVIDER_CLIENT_MAP_def)
  have nacc: "\<not> init_accepts_async_client example_deepseek"
    by (simp add: example_deepseek_def)
  have flag2: "get_provider_config example_deepseek
      (full_config_of (client_config_of (Some (no_cache_params ''deepseek''))) initial_state) =
      ConfigDict [(''cache_client'', ConfigBool False)]"
    by (simp add: get_provider_config_def full_config_of_def load_full_config_def
        client_config_of_def example_deepseek_def initial_state_def no_cache_params_def)
  from cache_flag_off_still_registered [OF cls2 flag2 entry, of example_runtime False
      "ValueError []" "''mine''" "example_instance 0"] key miss nacc
  have second: "get_client example_runtime example_map ''deepseek''
       (Some (no_cache_params ''deepseek'')) False initial_state =
     (Inl (TypeError ''__init__() got an unexpected keyword argument async_client''),
      initial_state\<lparr>next_object_id := Suc (next_object_id initial_state)\<rparr>)"
    by simp
  from first second show ?thesis
    by (simp add: get_or_authenticate_client_def auth_error_handler_def methods_to_try_def
        auth_method_config_of_def example_openai_def example_class_def strategy_returns_def
        example_instance_def initial_state_def Let_def)
qed

text \<open>
  C4 as stated fails: with \<^verbatim>\<open>cache_client\<close> false the first call stores the
  constructed instance under the key \<^verbatim>\<open>mine\<close>, which was not registered
  before, and the second call returns that instance from the registry without
  constructing anything.
\<close>

theorem cache_flag_off_counterexample:
  "get_provider_config example_openai
      (full_config_of (client_config_of (Some (no_cache_params ''openai''))) initial_state) =
     ConfigDict [(''cache_client'', ConfigBool False)]
   \<and> client_registry initial_state ''mine'' = None
   \<and> get_client example_runtime example_map ''openai'' (Some (no_cache_params ''openai'')) False
       initial_state =
     (Inr (example_instance 0),
      initial_state\<lparr>next_object_id := 1, auth_calls := [''api_key''],
        client_registry := [''mine'' \<mapsto> example_instance 0]\<rparr>)
   \<and> get_client example_runtime example_map ''openai'' (Some (no_cache_params ''openai'')) False
       (initial_state\<lparr>next_object_id := 1, auth_calls := [''api_key''],
        client_registry := [''mine'' \<mapsto> example_instance 0]\<rparr>) =
     (Inr (example_instance 0),
      initial_state\<lparr>next_object_id := 1, auth_calls := [''api_key''],
        client_registry := [''mine'' \<mapsto> example_instance 0]\<rparr>)"
  by (simp add: get_client_def registry_key_of_call_def generate_registry_key_def
      client_config_of_def new_provider_client_def example_map_def PROVIDER_CLIENT_MAP_def
      BaseProviderClient_init_def Let_def get_provider_config_def cache_client_of_def
      full_config_of_def load_full_config_def get_or_authenticate_client_def
      auth_error_handler_def methods_to_try_def auth_method_config_of_def strategy_returns_def
      example_openai_def example_class_def example_instance_def initial_state_def
      no_cache_params_def)

section \<open>Properties of the key derivation\<close>





section \<open>Properties of \<^verbatim>\<open>to_provider_dict\<close>\<close>

lemma distinct_model_fields: "distinct model_fields"
  by (simp add: model_fields_def)

lemma fst_to_provider_dict:
  "map fst (to_provider_dict r) =
   filter (\<lambda>key. key \<in> model_fields_set r \<and> attributes r key \<noteq> NOT_GIVEN) model_fields"
  by (simp add: to_provider_dict_def model_dump_exclude_unset_def filter_map comp_def)

lemma map_of_tabulated:
  "map_of (filter (\<lambda>(key, v). P v) (map (\<lambda>key. (key, f key)) keys)) k =
   (if k \<in> set keys \<and> P (f k) then Some (f k) else None)"
  by (induction keys) auto

lemma map_of_to_provider_dict:
  "map_of (to_provider_dict r) key =
   (if key \<in> set model_fields \<and> key \<in> model_fields_set r \<and> attributes r key \<noteq> NOT_GIVEN
    then Some (attributes r key) else None)"
  by (simp add: to_provider_dict_def model_dump_exclude_unset_def map_of_tabulated)

text \<open>
  C9. The dictionary \<open>to_provider_dict\<close> returns has each key once, has no key
  for a field the caller left unset, has no value \<^verbatim>\<open>NOT_GIVEN\<close>, and maps every
  field the caller set to a value other than the sentinel (\<^verbatim>\<open>None\<close> included)
  to that value. A field that holds \<^verbatim>\<open>NOT_GIVEN\<close> is not given, whether by
  default or because the caller passed the sentinel.
\<close>

theorem to_provider_dict_drops_unset_keeps_set:
  "distinct (map fst (to_provider_dict r))
   \<and> (key \<notin> model_fields_set r \<longrightarrow> key \<notin> fst ` set (to_provider_dict r))
   \<and> NOT_GIVEN \<notin> snd ` set (to_provider_dict r)
   \<and> (key \<in> set model_fields \<and> key \<in> model_fields_set r \<and> attributes r key \<noteq> NOT_GIVEN \<longrightarrow>
        map_of (to_provider_dict r) key = Some (attributes r key))"
proof (intro conjI impI)
  show "distinct (map fst (to_provider_dict r))"
    unfolding fst_to_provider_dict using distinct_model_fields by (rule distinct_filter)
next
  assume "key \<notin> model_fields_set r"
  then have "key \<notin> set (map fst (to_provider_dict r))"
    unfolding fst_to_provider_dict by simp
  then show "key \<notin> fst ` set (to_provider_dict r)" by simp
next
  show "NOT_GIVEN \<notin> snd ` set (to_provider_dict r)"
    by (auto simp: to_provider_dict_def)
next
  assume "key \<in> set model_fields \<and> key \<in> model_fields_set r \<and> attributes r key \<noteq> NOT_GIVEN"
  then show "map_of (to_provider_dict r) key = Some (attributes r key)"
    by (simp add: map_of_to_provider_dict)
qed

theorem to_provider_dict_drops_unset_keeps_set_witness:
  "to_provider_dict example_request =
     [(''model'', Value ''gpt-4o''), (''messages'', Value ''hello''), (''temperature'', PyNone)]
   \<and> ''top_p'' \<notin> fst ` set (to_provider_dict example_request)
   \<and> map_of (to_provider_dict example_request) ''temperature'' = Some PyNone"
proof -
  have v: "to_provider_dict example_request =
     [(''model'', Value ''gpt-4o''), (''messages'', Value ''hello''), (''temperature'', PyNone)]"
    by (simp add: to_provider_dict_def model_dump_exclude_unset_def model_fields_def
        example_request_def)
  have u: "''top_p'' \<notin> model_fields_set example_request"
    by (simp add: example_request_def)
  have s: "''temperature'' \<in> set model_fields \<and> ''temperature'' \<in> model_fields_set example_request
           \<and> attributes example_request ''temperature'' \<noteq> NOT_GIVEN"
    by (simp add: example_request_def model_fields_def)
  from to_provider_dict_drops_unset_keeps_set [of example_request "''top_p''"] u
  have a: "''top_p'' \<notin> fst ` set (to_provider_dict example_request)" by blast
  from to_provider_dict_drops_unset_keeps_set [of example_request "''temperature''"] s
  have b: "map_of (to_provider_dict example_request) ''temperature'' =
           Some (attributes example_request ''temperature'')" by blast
  have c: "attributes example_request ''temperature'' = PyNone"
    by (simp add: example_request_def)
  from v a b c show ?thesis by simp
qed

end
